theory Spec2Isabelle
  imports Complex_Main
begin

section \<open>Orbit Shield: proximity and risk-assessment engine\<close>

text \<open>
  The Python sources compute with IEEE doubles. Throughout this development a Python
  \<open>float\<close> is read as a real number, with the \<open>OverflowError\<close> of \<open>**\<close> written
  out; Python's unbounded \<open>int\<close> is \<open>int\<close>, a value that may be \<open>None\<close> an
  \<open>option\<close>, a \<open>dict\<close> read with \<open>.get(k, default)\<close> a map with an explicit default,
  and a raised exception the left summand of the result.
\<close>

subsection \<open>Continuous risk scorer (core/ai/model1\_risk\_predictor.py)\<close>

definition predict_risk_from_features ::
  "real \<Rightarrow> real \<Rightarrow> real \<Rightarrow> real \<Rightarrow> real option \<Rightarrow> real option \<Rightarrow> real" where
  "predict_risk_from_features distance rel_velocity angle altitude_diff distance_at_tca tca_seconds =
    (let d = max distance 0.001;
         base0 = exp (- d / 30.0);
         base =
           (case distance_at_tca of
              None \<Rightarrow> base0
            | Some dt \<Rightarrow>
                (let base_tca = exp (- max dt 0.001 / 20.0) * 0.8 in
                 (case tca_seconds of
                    None \<Rightarrow> base0
                  | Some ts \<Rightarrow>
                      (let time_factor =
                             (if ts \<ge> 0
                              then 1.0 + max 0.0 ((72 * 3600 - ts) / (72 * 3600)) * 0.5
                              else 1.0)
                       in max base0 (base_tca * time_factor)))));
         rv = rel_velocity;
         vel_factor = min (rv / 12.0) 1.0 * 0.4;
         ang_factor = angle / 180.0;
         angle_contrib = ang_factor * 0.2;
         alt_factor = max 0.0 (1.0 - min (altitude_diff / 50.0) 1.0) * 0.3;
         prob = base * 0.7 + vel_factor * 1.0 + angle_contrib + alt_factor * 0.5
     in max 0.0 (min 1.0 prob))"


text \<open>The scorer as the specification words it: \<open>clamp\<close>, the time factor (1 when the
  time of closest approach is negative or absent) and the base that is replaced whenever a
  distance at closest approach is given.\<close>

definition clamp :: "real \<Rightarrow> real \<Rightarrow> real \<Rightarrow> real" where
  "clamp v lo hi = max lo (min hi v)"

definition spec_time_factor :: "real option \<Rightarrow> real" where
  "spec_time_factor tca_seconds =
     (case tca_seconds of
        None \<Rightarrow> 1
      | Some ts \<Rightarrow> if ts \<ge> 0 then 1 + max 0 ((259200 - ts) / 259200) * 0.5 else 1)"

definition spec_base :: "real \<Rightarrow> real option \<Rightarrow> real option \<Rightarrow> real" where
  "spec_base distance distance_at_tca tca_seconds =
     (let base = exp (- max distance 0.001 / 30) in
      case distance_at_tca of
        None \<Rightarrow> base
      | Some dt \<Rightarrow> max base (exp (- max dt 0.001 / 20) * 0.8 * spec_time_factor tca_seconds))"

definition spec_probability :: "real \<Rightarrow> real \<Rightarrow> real \<Rightarrow> real \<Rightarrow> real" where
  "spec_probability base rel_velocity angle altitude_diff =
     clamp (base * 0.7 + min (rel_velocity / 12) 1 * 0.4 + (angle / 180) * 0.2
            + max 0 (1 - min (altitude_diff / 50) 1) * 0.3 * 0.5) 0 1"

subsection \<open>Discrete risk classifier (core/ai/model2\_risk\_classifier.py)\<close>

definition classify_distance :: "real \<Rightarrow> int" where
  "classify_distance distance =
     (if distance > 50 then 0
      else if distance > 20 then 1
      else if distance > 5 then 2
      else 3)"

record classification =
  risk_level :: int
  label :: string
  color :: string
  action :: string

definition dict_get :: "('k \<rightharpoonup> 'v) \<Rightarrow> 'k \<Rightarrow> 'v \<Rightarrow> 'v" where
  "dict_get m k dflt = (case m k of None \<Rightarrow> dflt | Some v \<Rightarrow> v)"

definition labels :: "int \<rightharpoonup> string \<times> string \<times> string" where
  "labels =
     [0 \<mapsto> (''No Risk'', ''green'', ''Continue monitoring''),
      1 \<mapsto> (''Low Risk'', ''yellow'', ''Increase monitoring frequency''),
      2 \<mapsto> (''Medium Risk'', ''orange'', ''Prepare avoidance maneuver''),
      3 \<mapsto> (''High Risk'', ''red'', ''Execute immediate avoidance maneuver'')]"

definition classify_risk_advanced :: "real \<Rightarrow> real \<Rightarrow> real \<Rightarrow> classification" where
  "classify_risk_advanced distance relative_velocity angle =
     (let risk_level0 = classify_distance distance;
          lca0 = dict_get labels risk_level0
                   (''No Risk'', ''green'', ''Continue monitoring'');
          (risk_level1, lca1) =
            (if relative_velocity > 10.0 \<and> angle > 150
             then (let r = min (risk_level0 + 1) 3
                   in (r, dict_get labels r
                            (''High Risk'', ''red'', ''Execute immediate avoidance maneuver'')))
             else (risk_level0, lca0))
      in (case lca1 of (l, c, a) \<Rightarrow>
            \<lparr> risk_level = risk_level1, label = l, color = c, action = a \<rparr>))"

text \<open>The band table of the specification, level by level.\<close>

definition level_info :: "int \<Rightarrow> classification" where
  "level_info n =
     (if n = 0 then \<lparr> risk_level = 0, label = ''No Risk'', color = ''green'',
                       action = ''Continue monitoring'' \<rparr>
      else if n = 1 then \<lparr> risk_level = 1, label = ''Low Risk'', color = ''yellow'',
                       action = ''Increase monitoring frequency'' \<rparr>
      else if n = 2 then \<lparr> risk_level = 2, label = ''Medium Risk'', color = ''orange'',
                       action = ''Prepare avoidance maneuver'' \<rparr>
      else \<lparr> risk_level = 3, label = ''High Risk'', color = ''red'',
                       action = ''Execute immediate avoidance maneuver'' \<rparr>)"

definition band :: "real \<Rightarrow> int" where
  "band distance =
     (if 50 < distance then 0
      else if 20 < distance \<and> distance \<le> 50 then 1
      else if 5 < distance \<and> distance \<le> 20 then 2
      else 3)"

subsection \<open>Raised exceptions\<close>

datatype py_error = TypeError | KeyError | OverflowError

text \<open>Sequencing of two computations that may raise: the second runs on the value of the
  first, and an exception of the first is the result.\<close>

definition bind_err :: "py_error + 'a \<Rightarrow> ('a \<Rightarrow> py_error + 'b) \<Rightarrow> py_error + 'b" where
  "bind_err m f = (case m of Inl e \<Rightarrow> Inl e | Inr v \<Rightarrow> f v)"

text \<open>\<open>v ** 2\<close> on a float raises \<open>OverflowError\<close> when the square is too large for
  a double: at or above \<open>2 ^ 1024 - 2 ^ 970\<close>, half a unit in the last place past the
  largest double.\<close>

definition DBL_OVERFLOW :: real where
  "DBL_OVERFLOW = 2 ^ 1024 - 2 ^ 970"

definition pow2 :: "real \<Rightarrow> py_error + real" where
  "pow2 v = (if DBL_OVERFLOW \<le> v\<^sup>2 then Inl OverflowError else Inr (v\<^sup>2))"

subsection \<open>Dictionary vectors and the scanner's closest approach (core/orbital/vector\_math.py)\<close>

text \<open>Positions and velocities are dictionaries of numbers, read with
  \<open>.get(key, 0)\<close>.\<close>

type_synonym num_dict = "string \<rightharpoonup> real"

definition compute_distance :: "num_dict \<Rightarrow> num_dict \<Rightarrow> py_error + real" where
  "compute_distance pos1 pos2 =
     (let dx = dict_get pos2 ''x'' 0 - dict_get pos1 ''x'' 0;
          dy = dict_get pos2 ''y'' 0 - dict_get pos1 ''y'' 0;
          dz = dict_get pos2 ''z'' 0 - dict_get pos1 ''z'' 0
      in bind_err (pow2 dx) (\<lambda>sx.
         bind_err (pow2 dy) (\<lambda>sy.
         bind_err (pow2 dz) (\<lambda>sz.
         Inr (sqrt (sx + sy + sz))))))"

definition compute_relative_velocity :: "num_dict \<Rightarrow> num_dict \<Rightarrow> py_error + real" where
  "compute_relative_velocity vel1 vel2 =
     (let dvx = dict_get vel2 ''vx'' 0 - dict_get vel1 ''vx'' 0;
          dvy = dict_get vel2 ''vy'' 0 - dict_get vel1 ''vy'' 0;
          dvz = dict_get vel2 ''vz'' 0 - dict_get vel1 ''vz'' 0
      in bind_err (pow2 dvx) (\<lambda>sx.
         bind_err (pow2 dvy) (\<lambda>sy.
         bind_err (pow2 dvz) (\<lambda>sz.
         Inr (sqrt (sx + sy + sz))))))"

definition compute_closest_approach ::
  "num_dict \<Rightarrow> num_dict \<Rightarrow> num_dict \<Rightarrow> num_dict \<Rightarrow> int \<Rightarrow> py_error + real \<times> real" where
  "compute_closest_approach pos1 vel1 pos2 vel2 time_window_sec =
     bind_err (compute_distance pos1 pos2) (\<lambda>current_distance.
     bind_err (compute_relative_velocity vel1 vel2) (\<lambda>rel_velocity.
     (let dx = dict_get pos2 ''x'' 0 - dict_get pos1 ''x'' 0;
          dy = dict_get pos2 ''y'' 0 - dict_get pos1 ''y'' 0;
          dz = dict_get pos2 ''z'' 0 - dict_get pos1 ''z'' 0;
          dvx = dict_get vel2 ''vx'' 0 - dict_get vel1 ''vx'' 0;
          dvy = dict_get vel2 ''vy'' 0 - dict_get vel1 ''vy'' 0;
          dvz = dict_get vel2 ''vz'' 0 - dict_get vel1 ''vz'' 0;
          numerator = - (dx * dvx + dy * dvy + dz * dvz)
      in bind_err (pow2 dvx) (\<lambda>svx.
         bind_err (pow2 dvy) (\<lambda>svy.
         bind_err (pow2 dvz) (\<lambda>svz.
         (let denominator = svx + svy + svz
          in if denominator < 1 / 10 ^ 10 then Inr (0.0, current_distance)
             else
              (let time_to_closest0 = numerator / denominator;
                   time_to_closest =
                     (if time_to_closest0 < 0 then 0
                      else if time_to_closest0 > of_int time_window_sec
                           then of_int time_window_sec
                      else time_to_closest0);
                   x1_future = dict_get pos1 ''x'' 0 + dict_get vel1 ''vx'' 0 * time_to_closest;
                   y1_future = dict_get pos1 ''y'' 0 + dict_get vel1 ''vy'' 0 * time_to_closest;
                   z1_future = dict_get pos1 ''z'' 0 + dict_get vel1 ''vz'' 0 * time_to_closest;
                   x2_future = dict_get pos2 ''x'' 0 + dict_get vel2 ''vx'' 0 * time_to_closest;
                   y2_future = dict_get pos2 ''y'' 0 + dict_get vel2 ''vy'' 0 * time_to_closest;
                   z2_future = dict_get pos2 ''z'' 0 + dict_get vel2 ''vz'' 0 * time_to_closest
               in bind_err (pow2 (x2_future - x1_future)) (\<lambda>fx.
                  bind_err (pow2 (y2_future - y1_future)) (\<lambda>fy.
                  bind_err (pow2 (z2_future - z1_future)) (\<lambda>fz.
                  Inr (time_to_closest, sqrt (fx + fy + fz)))))))))))))"

text \<open>Vocabulary for stating the closest-approach claim: the separation of the two objects
  after \<open>t\<close> seconds of linear motion, the squared relative speed, the unclamped
  minimiser of the separation, and a magnitude bound on the entries of a dictionary.\<close>

definition separation_at :: "num_dict \<Rightarrow> num_dict \<Rightarrow> num_dict \<Rightarrow> num_dict \<Rightarrow> real \<Rightarrow> real" where
  "separation_at pos1 vel1 pos2 vel2 t =
     sqrt (((dict_get pos2 ''x'' 0 + dict_get vel2 ''vx'' 0 * t)
             - (dict_get pos1 ''x'' 0 + dict_get vel1 ''vx'' 0 * t))\<^sup>2
         + ((dict_get pos2 ''y'' 0 + dict_get vel2 ''vy'' 0 * t)
             - (dict_get pos1 ''y'' 0 + dict_get vel1 ''vy'' 0 * t))\<^sup>2
         + ((dict_get pos2 ''z'' 0 + dict_get vel2 ''vz'' 0 * t)
             - (dict_get pos1 ''z'' 0 + dict_get vel1 ''vz'' 0 * t))\<^sup>2)"

definition rel_speed_sq :: "num_dict \<Rightarrow> num_dict \<Rightarrow> real" where
  "rel_speed_sq vel1 vel2 =
     (dict_get vel2 ''vx'' 0 - dict_get vel1 ''vx'' 0)\<^sup>2
     + (dict_get vel2 ''vy'' 0 - dict_get vel1 ''vy'' 0)\<^sup>2
     + (dict_get vel2 ''vz'' 0 - dict_get vel1 ''vz'' 0)\<^sup>2"

definition linear_minimiser :: "num_dict \<Rightarrow> num_dict \<Rightarrow> num_dict \<Rightarrow> num_dict \<Rightarrow> real" where
  "linear_minimiser pos1 vel1 pos2 vel2 =
     - ((dict_get pos2 ''x'' 0 - dict_get pos1 ''x'' 0) * (dict_get vel2 ''vx'' 0 - dict_get vel1 ''vx'' 0)
        + (dict_get pos2 ''y'' 0 - dict_get pos1 ''y'' 0) * (dict_get vel2 ''vy'' 0 - dict_get vel1 ''vy'' 0)
        + (dict_get pos2 ''z'' 0 - dict_get pos1 ''z'' 0) * (dict_get vel2 ''vz'' 0 - dict_get vel1 ''vz'' 0))
     / rel_speed_sq vel1 vel2"

definition entries_within :: "real \<Rightarrow> num_dict \<Rightarrow> string list \<Rightarrow> bool" where
  "entries_within b m keys = list_all (\<lambda>k. \<bar>dict_get m k 0\<bar> \<le> b) keys"

text \<open>The clamp of a time to the window, as the theorems state it.\<close>

definition clamp_time :: "real \<Rightarrow> int \<Rightarrow> real" where
  "clamp_time t0 w = (if t0 < 0 then 0 else if t0 > of_int w then of_int w else t0)"

subsection \<open>Spatial prefilter and batch check (core/orbital/collision\_detection.py)\<close>

text \<open>The two thresholds read from config/settings.py.\<close>

definition COLLISION_THRESHOLD_KM :: real where
  "COLLISION_THRESHOLD_KM = 10.0"

definition HIGH_RISK_THRESHOLD_KM :: real where
  "HIGH_RISK_THRESHOLD_KM = 5.0"

text \<open>A catalogue object: its \<open>id\<close> entry (absent: \<open>None\<close>) and its numeric entries.\<close>

record space_object =
  so_id :: "string option"
  so_fields :: num_dict

record collision =
  c_satellite_id :: "string option"
  c_debris_id :: "string option"
  c_distance_km :: real
  c_is_high_risk :: bool

definition detect_collision_simple ::
  "num_dict \<Rightarrow> num_dict \<Rightarrow> real option \<Rightarrow> py_error + bool \<times> real" where
  "detect_collision_simple sat_position debris_position threshold_km =
     (let threshold = (case threshold_km of None \<Rightarrow> COLLISION_THRESHOLD_KM | Some t \<Rightarrow> t)
      in bind_err (compute_distance sat_position debris_position) (\<lambda>distance.
         (let is_risk = distance < threshold
          in Inr (is_risk, distance))))"


text \<open>\<open>{k: obj.get(k, 0) for k in ["x", "y", "z"]}\<close>\<close>

definition xyz_of :: "space_object \<Rightarrow> num_dict" where
  "xyz_of obj =
     [''x'' \<mapsto> dict_get (so_fields obj) ''x'' 0,
      ''y'' \<mapsto> dict_get (so_fields obj) ''y'' 0,
      ''z'' \<mapsto> dict_get (so_fields obj) ''z'' 0]"

definition cell_size :: real where
  "cell_size = 50.0"

definition cell :: "num_dict \<Rightarrow> int \<times> int \<times> int" where
  "cell point =
     (\<lfloor>dict_get point ''x'' 0 / cell_size\<rfloor>,
      \<lfloor>dict_get point ''y'' 0 / cell_size\<rfloor>,
      \<lfloor>dict_get point ''z'' 0 / cell_size\<rfloor>)"

text \<open>\<open>sum(abs(a - b) for a, b in zip(sat_cell, cell(d_pos)))\<close>\<close>

fun cell_distance :: "int \<times> int \<times> int \<Rightarrow> int \<times> int \<times> int \<Rightarrow> int" where
  "cell_distance (a1, a2, a3) (b1, b2, b3) = \<bar>a1 - b1\<bar> + \<bar>a2 - b2\<bar> + \<bar>a3 - b3\<bar>"

text \<open>The first loop: debris whose cell is within Manhattan distance 1 of the satellite's.\<close>

fun candidate_debris :: "int \<times> int \<times> int \<Rightarrow> space_object list \<Rightarrow> space_object list" where
  "candidate_debris sat_cell [] = []"
| "candidate_debris sat_cell (debris # rest) =
     (if cell_distance sat_cell (cell (xyz_of debris)) \<le> 1
      then debris # candidate_debris sat_cell rest
      else candidate_debris sat_cell rest)"

text \<open>The second loop: the exact distance check on the candidates, in order; an exception
  of one check ends the loop.\<close>

fun check_candidates ::
  "space_object \<Rightarrow> num_dict \<Rightarrow> real \<Rightarrow> space_object list \<Rightarrow> py_error + collision list" where
  "check_candidates satellite sat_pos threshold_km [] = Inr []"
| "check_candidates satellite sat_pos threshold_km (debris # rest) =
     (let debris_pos = xyz_of debris
      in bind_err (detect_collision_simple sat_pos debris_pos (Some threshold_km))
           (\<lambda>(is_risk, distance).
         bind_err (check_candidates satellite sat_pos threshold_km rest) (\<lambda>collisions.
           Inr (if is_risk
                then \<lparr> c_satellite_id = so_id satellite, c_debris_id = so_id debris,
                       c_distance_km = distance,
                       c_is_high_risk = (distance < HIGH_RISK_THRESHOLD_KM) \<rparr> # collisions
                else collisions))))"

definition batch_collision_check ::
  "space_object \<Rightarrow> space_object list \<Rightarrow> real option \<Rightarrow> py_error + collision list" where
  "batch_collision_check satellite debris_list threshold_km =
     (let threshold = (case threshold_km of None \<Rightarrow> COLLISION_THRESHOLD_KM | Some t \<Rightarrow> t);
          sat_pos = xyz_of satellite;
          sat_cell = cell sat_pos
      in check_candidates satellite sat_pos threshold (candidate_debris sat_cell debris_list))"

text \<open>A satellite and a debris object 2.83 km apart across a diagonal cell corner.\<close>

definition diagonal_sat :: space_object where
  "diagonal_sat = \<lparr> so_id = Some ''SAT'', so_fields = [''x'' \<mapsto> 49, ''y'' \<mapsto> 49, ''z'' \<mapsto> 0] \<rparr>"

definition diagonal_deb :: space_object where
  "diagonal_deb = \<lparr> so_id = Some ''DEB'', so_fields = [''x'' \<mapsto> 51, ''y'' \<mapsto> 51, ''z'' \<mapsto> 0] \<rparr>"

subsection \<open>The full scan (services/collision\_service.py)\<close>

text \<open>A call with keyword arguments binds each keyword to the parameter of that name. A
  keyword that names no parameter, or a parameter left without a value, raises
  \<open>TypeError\<close>.\<close>

definition call_kw :: "string list \<Rightarrow> (string \<times> real) list \<Rightarrow> py_error + real list" where
  "call_kw params kwargs =
     (if list_ex (\<lambda>kv. fst kv \<notin> set params) kwargs then Inl TypeError
      else if list_ex (\<lambda>p. map_of kwargs p = None) params then Inl TypeError
      else Inr (map (\<lambda>p. dict_get (map_of kwargs) p 0) params))"


definition classify_risk_advanced_kw :: "(string \<times> real) list \<Rightarrow> py_error + classification" where
  "classify_risk_advanced_kw kwargs =
     bind_err (call_kw [''distance'', ''relative_velocity'', ''angle''] kwargs)
       (\<lambda>args. case args of
                  [d, rv, a] \<Rightarrow> Inr (classify_risk_advanced d rv a)
                | _ \<Rightarrow> Inl TypeError)"















section \<open>Properties\<close>

lemma classify_distance_range: "0 \<le> classify_distance d \<and> classify_distance d \<le> 3"
  by (simp add: classify_distance_def)

lemma labels_simps:
  "labels 0 = Some (''No Risk'', ''green'', ''Continue monitoring'')"
  "labels 1 = Some (''Low Risk'', ''yellow'', ''Increase monitoring frequency'')"
  "labels 2 = Some (''Medium Risk'', ''orange'', ''Prepare avoidance maneuver'')"
  "labels 3 = Some (''High Risk'', ''red'', ''Execute immediate avoidance maneuver'')"
  by (simp_all add: labels_def)

text \<open>
  Claim C2. For every real-valued feature input, with or without a distance at closest
  approach and a time of closest approach, the probability returned by the continuous risk
  scorer lies in the closed interval from 0 to 1.
\<close>

theorem predict_risk_from_features_unit_interval:
  "0 \<le> predict_risk_from_features d rv a ad dt ts
   \<and> predict_risk_from_features d rv a ad dt ts \<le> 1"
  by (simp add: predict_risk_from_features_def Let_def)

lemma classify_risk_advanced_level:
  "risk_level (classify_risk_advanced d rv a) =
     (if rv > 10 \<and> a > 150 then min (classify_distance d + 1) 3 else classify_distance d)"
  by (simp add: classify_risk_advanced_def Let_def split: prod.splits)

lemma exp_minus_ten_thirds: "exp (- (10/3::real)) \<le> 3/13"
proof -
  have "1 + (10/3::real) \<le> exp (10/3)" by (rule exp_ge_add_one_self)
  hence "1 / exp (10/3::real) \<le> 1 / (1 + 10/3)" by (intro divide_left_mono) auto
  thus ?thesis by (simp add: exp_minus field_simps)
qed

lemma exp_minus_small: "1 - (1/20000::real) \<le> exp (- (1/20000))"
  using exp_ge_add_one_self [of "- (1/20000::real)"] by simp

text \<open>
  Claim C1. The claim has the scorer replace the base by the larger of itself and the
  closest-approach term whenever a distance at closest approach is provided, with time
  factor 1 when the time of closest approach is negative or absent. At distance 100,
  relative speed 0, angle 0, altitude difference 50 and distance at closest approach 0.001
  with no time of closest approach, the scorer computes the closest-approach term and drops
  it: it returns less than 0.2, where the formula of the claim gives more than 0.5, as the
  scorer itself does at the same input with the negative time \<open>-1\<close>.
\<close>

theorem predict_risk_override_dropped_without_tca:
  "predict_risk_from_features 100 0 0 50 (Some (1/1000)) None < 1/5
   \<and> 1/2 < spec_probability (spec_base 100 (Some (1/1000)) None) 0 0 50
   \<and> 1/2 < predict_risk_from_features 100 0 0 50 (Some (1/1000)) (Some (- 1))"
proof -
  have lhs: "predict_risk_from_features 100 0 0 50 (Some (1/1000)) None
               = exp (- (10/3)) * 0.7"
    using exp_minus_ten_thirds
    by (simp add: predict_risk_from_features_def Let_def max_def min_def)
  have rhs: "min 1 (exp (- (1/20000)) * 0.8 * 0.7)
               \<le> spec_probability (spec_base 100 (Some (1/1000)) None) 0 0 50"
    by (simp add: spec_probability_def spec_base_def spec_time_factor_def clamp_def Let_def
          max_def min_def)
  have neg: "min 1 (exp (- (1/20000)) * 0.8 * 0.7)
               \<le> predict_risk_from_features 100 0 0 50 (Some (1/1000)) (Some (- 1))"
    by (simp add: predict_risk_from_features_def Let_def max_def min_def)
  have big: "1/2 < min 1 (exp (- (1/20000)) * 0.8 * 0.7 :: real)"
    using exp_minus_small by (simp add: min_def)
  have a: "predict_risk_from_features 100 0 0 50 (Some (1/1000)) None < 1/5"
    unfolding lhs using exp_minus_ten_thirds by simp
  have b: "1/2 < spec_probability (spec_base 100 (Some (1/1000)) None) 0 0 50"
    by (rule less_le_trans [OF big rhs])
  have c: "1/2 < predict_risk_from_features 100 0 0 50 (Some (1/1000)) (Some (- 1))"
    by (rule less_le_trans [OF big neg])
  from a b c show ?thesis by (intro conjI)
qed

text \<open>
  Claim C3. The discrete classifier returns the band level fixed by the distance alone
  (0 above 50 km, 1 in (20, 50], 2 in (5, 20], 3 at or below 5 km); exactly when the
  relative speed exceeds 10 km/s and the approach angle exceeds 150 degrees the level is
  raised by one, capped at 3; label, colour and action are those of the resulting level.
\<close>

theorem classify_risk_advanced_bands:
  "classify_risk_advanced d rv a =
     level_info (if rv > 10 \<and> a > 150 then min (band d + 1) 3 else band d)"
  by (simp add: classify_risk_advanced_def classify_distance_def band_def level_info_def
      dict_get_def labels_def Let_def)

text \<open>
  Claim C9. For fixed relative speed and approach angle the level returned by the
  classifier does not increase when the distance increases, and the escalation never
  lowers the level given by the distance bands alone.
\<close>

theorem classify_risk_advanced_monotone:
  "d1 \<le> d2 \<Longrightarrow>
     risk_level (classify_risk_advanced d2 rv a) \<le> risk_level (classify_risk_advanced d1 rv a)
     \<and> classify_distance d1 \<le> risk_level (classify_risk_advanced d1 rv a)"
  by (simp add: classify_risk_advanced_level classify_distance_def)

theorem classify_risk_advanced_monotone_witness:
  "(3::real) \<le> 30
   \<and> risk_level (classify_risk_advanced 30 11 160) \<le> risk_level (classify_risk_advanced 3 11 160)
   \<and> classify_distance 3 \<le> risk_level (classify_risk_advanced 3 11 160)
   \<and> risk_level (classify_risk_advanced 30 11 160) = 2
   \<and> risk_level (classify_risk_advanced 3 11 160) = 3"
  using classify_risk_advanced_monotone [of 3 30 11 160]
  by (simp add: classify_risk_advanced_level classify_distance_def)

lemma dict_get_simps [simp]:
  "dict_get Map.empty k d = d"
  "dict_get (m(k \<mapsto> v)) k d = v"
  "k' \<noteq> k \<Longrightarrow> dict_get (m(k \<mapsto> v)) k' d = dict_get m k' d"
  by (simp_all add: dict_get_def)

lemma bind_err_simps [simp]:
  "bind_err (Inl e) f = Inl e"
  "bind_err (Inr v) f = f v"
  by (simp_all add: bind_err_def)

lemma overflow_above: "(10::real) ^ 202 < DBL_OVERFLOW"
  by (simp add: DBL_OVERFLOW_def)

lemma pow2_small: "\<bar>v\<bar> \<le> 10 ^ 101 \<Longrightarrow> pow2 v = Inr (v\<^sup>2)"
proof -
  assume "\<bar>v\<bar> \<le> 10 ^ 101"
  hence "\<bar>v\<bar> \<le> \<bar>10 ^ 101 :: real\<bar>" by simp
  hence "v\<^sup>2 \<le> (10 ^ 101)\<^sup>2" by (simp only: abs_le_square_iff)
  also have "\<dots> = (10::real) ^ 202" by simp
  finally have "v\<^sup>2 < DBL_OVERFLOW" using overflow_above by simp
  thus ?thesis by (simp add: pow2_def)
qed

lemma pow2_diff:
  assumes "\<bar>a2\<bar> \<le> 10 ^ 50" "\<bar>a1\<bar> \<le> 10 ^ 50"
  shows "pow2 (a2 - a1) = Inr ((a2 - a1)\<^sup>2)"
proof -
  have "\<bar>a2 - a1\<bar> \<le> 2 * 10 ^ 50" using assms by linarith
  also have "\<dots> \<le> (10::real) ^ 101" by simp
  finally show ?thesis by (rule pow2_small)
qed

lemma pow2_future:
  assumes a: "\<bar>a2\<bar> \<le> 10 ^ 50" "\<bar>a1\<bar> \<le> 10 ^ 50"
      and u: "\<bar>u2\<bar> \<le> 10 ^ 50" "\<bar>u1\<bar> \<le> 10 ^ 50"
      and t: "0 \<le> t" "t \<le> 10 ^ 50"
  shows "pow2 ((a2 + u2 * t) - (a1 + u1 * t)) = Inr (((a2 + u2 * t) - (a1 + u1 * t))\<^sup>2)"
proof -
  have m2: "\<bar>u2 * t\<bar> \<le> 10 ^ 50 * 10 ^ 50"
    unfolding abs_mult using u(1) t by (intro mult_mono) simp_all
  have m1: "\<bar>u1 * t\<bar> \<le> 10 ^ 50 * 10 ^ 50"
    unfolding abs_mult using u(2) t by (intro mult_mono) simp_all
  have "\<bar>(a2 + u2 * t) - (a1 + u1 * t)\<bar> \<le> \<bar>a2\<bar> + \<bar>u2 * t\<bar> + \<bar>a1\<bar> + \<bar>u1 * t\<bar>"
    by linarith
  also have "\<dots> \<le> 10 ^ 50 + 10 ^ 50 * 10 ^ 50 + 10 ^ 50 + 10 ^ 50 * 10 ^ 50"
    using a m1 m2 by linarith
  also have "\<dots> \<le> (10::real) ^ 101" by simp
  finally show ?thesis by (rule pow2_small)
qed

lemma entries_within3:
  "entries_within b m [k1, k2, k3]
     \<longleftrightarrow> \<bar>dict_get m k1 0\<bar> \<le> b \<and> \<bar>dict_get m k2 0\<bar> \<le> b \<and> \<bar>dict_get m k3 0\<bar> \<le> b"
  by (simp add: entries_within_def)

lemma compute_distance_bounded:
  assumes "entries_within (10 ^ 50) pos1 [''x'', ''y'', ''z'']"
      and "entries_within (10 ^ 50) pos2 [''x'', ''y'', ''z'']"
  shows "compute_distance pos1 pos2 = Inr (separation_at pos1 vel1 pos2 vel2 0)"
  using assms
  by (simp add: entries_within3 compute_distance_def Let_def pow2_diff separation_at_def)

lemma compute_relative_velocity_bounded:
  assumes "entries_within (10 ^ 50) vel1 [''vx'', ''vy'', ''vz'']"
      and "entries_within (10 ^ 50) vel2 [''vx'', ''vy'', ''vz'']"
  shows "compute_relative_velocity vel1 vel2 = Inr (sqrt (rel_speed_sq vel1 vel2))"
  using assms
  by (simp add: entries_within3 compute_relative_velocity_def Let_def pow2_diff rel_speed_sq_def)

lemma clamp_time_range: "0 \<le> w \<Longrightarrow> 0 \<le> clamp_time t0 w \<and> clamp_time t0 w \<le> of_int w"
  by (simp add: clamp_time_def)

lemma compute_closest_approach_bounded:
  assumes w: "0 \<le> w" "of_int w \<le> (10::real) ^ 50"
      and p1: "entries_within (10 ^ 50) pos1 [''x'', ''y'', ''z'']"
      and p2: "entries_within (10 ^ 50) pos2 [''x'', ''y'', ''z'']"
      and v1: "entries_within (10 ^ 50) vel1 [''vx'', ''vy'', ''vz'']"
      and v2: "entries_within (10 ^ 50) vel2 [''vx'', ''vy'', ''vz'']"
  shows "compute_closest_approach pos1 vel1 pos2 vel2 w =
           Inr (if rel_speed_sq vel1 vel2 < 1 / 10 ^ 10
                then (0, separation_at pos1 vel1 pos2 vel2 0)
                else (clamp_time (linear_minimiser pos1 vel1 pos2 vel2) w,
                      separation_at pos1 vel1 pos2 vel2
                        (clamp_time (linear_minimiser pos1 vel1 pos2 vel2) w)))"
proof -
  define t where "t = clamp_time (linear_minimiser pos1 vel1 pos2 vel2) w"
  have t: "0 \<le> t" "t \<le> 10 ^ 50"
    using clamp_time_range [OF w(1), of "linear_minimiser pos1 vel1 pos2 vel2"] w(2)
    by (simp_all add: t_def)
  have fx: "pow2 ((dict_get pos2 ''x'' 0 + dict_get vel2 ''vx'' 0 * t)
                  - (dict_get pos1 ''x'' 0 + dict_get vel1 ''vx'' 0 * t))
            = Inr (((dict_get pos2 ''x'' 0 + dict_get vel2 ''vx'' 0 * t)
                  - (dict_get pos1 ''x'' 0 + dict_get vel1 ''vx'' 0 * t))\<^sup>2)"
    using p1 p2 v1 v2 t by (intro pow2_future) (simp_all add: entries_within3)
  have fy: "pow2 ((dict_get pos2 ''y'' 0 + dict_get vel2 ''vy'' 0 * t)
                  - (dict_get pos1 ''y'' 0 + dict_get vel1 ''vy'' 0 * t))
            = Inr (((dict_get pos2 ''y'' 0 + dict_get vel2 ''vy'' 0 * t)
                  - (dict_get pos1 ''y'' 0 + dict_get vel1 ''vy'' 0 * t))\<^sup>2)"
    using p1 p2 v1 v2 t by (intro pow2_future) (simp_all add: entries_within3)
  have fz: "pow2 ((dict_get pos2 ''z'' 0 + dict_get vel2 ''vz'' 0 * t)
                  - (dict_get pos1 ''z'' 0 + dict_get vel1 ''vz'' 0 * t))
            = Inr (((dict_get pos2 ''z'' 0 + dict_get vel2 ''vz'' 0 * t)
                  - (dict_get pos1 ''z'' 0 + dict_get vel1 ''vz'' 0 * t))\<^sup>2)"
    using p1 p2 v1 v2 t by (intro pow2_future) (simp_all add: entries_within3)
  have sv: "pow2 (dict_get vel2 ''vx'' 0 - dict_get vel1 ''vx'' 0)
              = Inr ((dict_get vel2 ''vx'' 0 - dict_get vel1 ''vx'' 0)\<^sup>2)"
           "pow2 (dict_get vel2 ''vy'' 0 - dict_get vel1 ''vy'' 0)
              = Inr ((dict_get vel2 ''vy'' 0 - dict_get vel1 ''vy'' 0)\<^sup>2)"
           "pow2 (dict_get vel2 ''vz'' 0 - dict_get vel1 ''vz'' 0)
              = Inr ((dict_get vel2 ''vz'' 0 - dict_get vel1 ''vz'' 0)\<^sup>2)"
    using v1 v2 by (simp_all add: entries_within3 pow2_diff)
  show ?thesis
    unfolding compute_closest_approach_def
      compute_distance_bounded [OF p1 p2, of vel1 vel2]
      compute_relative_velocity_bounded [OF v1 v2]
    using fx [unfolded t_def] fy [unfolded t_def] fz [unfolded t_def]
    by (simp add: Let_def sv rel_speed_sq_def linear_minimiser_def separation_at_def
          clamp_time_def [symmetric])
qed

text \<open>
  Claim C10, as stated: whenever the unclamped minimiser of the linear motion exceeds the
  window, the returned time is the window. With the default window 3600, an object one
  kilometre away and a relative speed of 1e-6 km/s, the squared relative speed is below
  1e-10 and the routine takes its parallel branch: it returns time 0 and the current
  distance 1 although the minimiser, a million seconds, exceeds the window.
\<close>

theorem compute_closest_approach_near_parallel:
  "compute_closest_approach Map.empty Map.empty [''x'' \<mapsto> - 1] [''vx'' \<mapsto> 1 / 10 ^ 6] 3600
     = Inr (0, 1)
   \<and> 3600 < linear_minimiser Map.empty Map.empty [''x'' \<mapsto> - 1] [''vx'' \<mapsto> 1 / 10 ^ 6]"
  by (simp add: compute_closest_approach_def compute_distance_def compute_relative_velocity_def
        linear_minimiser_def rel_speed_sq_def Let_def pow2_small power2_eq_square)

text \<open>
  Claim C10, amended: for a window between 0 and 1e50 and positions and velocities of
  magnitude at most 1e50 (so that no square overflows) the routine returns a time in the
  interval from 0 to the window and the separation at that time. When the squared relative
  speed is below 1e-10 the time is 0 and the distance is the current distance, whatever the
  minimiser is. Otherwise the time is 0 when the unclamped minimiser is negative, the
  window when the minimiser exceeds it, and the minimiser itself in between. There are
  inputs where the returned distance exceeds the separation at the unclamped minimiser.
\<close>

theorem compute_closest_approach_clamped:
  assumes w: "0 \<le> w" "of_int w \<le> (10::real) ^ 50"
      and p1: "entries_within (10 ^ 50) pos1 [''x'', ''y'', ''z'']"
      and p2: "entries_within (10 ^ 50) pos2 [''x'', ''y'', ''z'']"
      and v1: "entries_within (10 ^ 50) vel1 [''vx'', ''vy'', ''vz'']"
      and v2: "entries_within (10 ^ 50) vel2 [''vx'', ''vy'', ''vz'']"
  shows "\<exists>t d. compute_closest_approach pos1 vel1 pos2 vel2 w = Inr (t, d)
      \<and> 0 \<le> t \<and> t \<le> of_int w
      \<and> d = separation_at pos1 vel1 pos2 vel2 t
      \<and> (rel_speed_sq vel1 vel2 < 1 / 10 ^ 10
            \<longrightarrow> t = 0 \<and> compute_distance pos1 pos2 = Inr d)
      \<and> (1 / 10 ^ 10 \<le> rel_speed_sq vel1 vel2 \<and> linear_minimiser pos1 vel1 pos2 vel2 < 0
            \<longrightarrow> t = 0)
      \<and> (1 / 10 ^ 10 \<le> rel_speed_sq vel1 vel2
            \<and> of_int w < linear_minimiser pos1 vel1 pos2 vel2
            \<longrightarrow> t = of_int w)
      \<and> (1 / 10 ^ 10 \<le> rel_speed_sq vel1 vel2
            \<and> 0 \<le> linear_minimiser pos1 vel1 pos2 vel2
            \<and> linear_minimiser pos1 vel1 pos2 vel2 \<le> of_int w
            \<longrightarrow> t = linear_minimiser pos1 vel1 pos2 vel2)
      \<and> (\<exists>q1 u1 q2 u2 t' d'.
            compute_closest_approach q1 u1 q2 u2 3600 = Inr (t', d')
            \<and> separation_at q1 u1 q2 u2 (linear_minimiser q1 u1 q2 u2) < d')"
proof -
  let ?m = "linear_minimiser pos1 vel1 pos2 vel2"
  have ex: "\<exists>q1 u1 q2 u2 t' d'.
            compute_closest_approach q1 u1 q2 u2 3600 = Inr (t', d')
            \<and> separation_at q1 u1 q2 u2 (linear_minimiser q1 u1 q2 u2) < d'"
  proof -
    have "compute_closest_approach Map.empty Map.empty [''x'' \<mapsto> 3] [''vx'' \<mapsto> 1] 3600
            = Inr (0, 3)
        \<and> separation_at Map.empty Map.empty [''x'' \<mapsto> 3] [''vx'' \<mapsto> 1]
              (linear_minimiser Map.empty Map.empty [''x'' \<mapsto> 3] [''vx'' \<mapsto> 1]) < 3"
      by (simp add: compute_closest_approach_def compute_distance_def
            compute_relative_velocity_def linear_minimiser_def rel_speed_sq_def
            separation_at_def Let_def pow2_small)
    thus ?thesis by blast
  qed
  note r = compute_closest_approach_bounded [OF w p1 p2 v1 v2]
  show ?thesis
  proof (cases "rel_speed_sq vel1 vel2 < 1 / 10 ^ 10")
    case True
    have "compute_closest_approach pos1 vel1 pos2 vel2 w
            = Inr (0, separation_at pos1 vel1 pos2 vel2 0)"
      using r True by simp
    moreover have "compute_distance pos1 pos2 = Inr (separation_at pos1 vel1 pos2 vel2 0)"
      by (rule compute_distance_bounded [OF p1 p2])
    ultimately show ?thesis
      using True w(1) ex
      by (intro exI [of _ 0] exI [of _ "separation_at pos1 vel1 pos2 vel2 0"]) simp
  next
    case False
    have "compute_closest_approach pos1 vel1 pos2 vel2 w
            = Inr (clamp_time ?m w, separation_at pos1 vel1 pos2 vel2 (clamp_time ?m w))"
      using r False by simp
    moreover have "0 \<le> clamp_time ?m w \<and> clamp_time ?m w \<le> of_int w"
      by (rule clamp_time_range [OF w(1)])
    moreover have "?m < 0 \<Longrightarrow> clamp_time ?m w = 0"
      and "of_int w < ?m \<Longrightarrow> clamp_time ?m w = of_int w"
      and "0 \<le> ?m \<Longrightarrow> ?m \<le> of_int w \<Longrightarrow> clamp_time ?m w = ?m"
      using w(1) by (simp_all add: clamp_time_def)
    ultimately show ?thesis
      using False ex
      by (intro exI [of _ "clamp_time ?m w"]
                exI [of _ "separation_at pos1 vel1 pos2 vel2 (clamp_time ?m w)"]) simp
  qed
qed

theorem compute_closest_approach_clamped_witness:
  "(0::int) \<le> 3600 \<and> of_int (3600::int) \<le> (10::real) ^ 50
   \<and> entries_within (10 ^ 50) Map.empty [''x'', ''y'', ''z'']
   \<and> entries_within (10 ^ 50) [''x'' \<mapsto> 10000] [''x'', ''y'', ''z'']
   \<and> entries_within (10 ^ 50) Map.empty [''vx'', ''vy'', ''vz'']
   \<and> entries_within (10 ^ 50) [''vx'' \<mapsto> - 1] [''vx'', ''vy'', ''vz'']
   \<and> (\<exists>t d. compute_closest_approach Map.empty Map.empty [''x'' \<mapsto> 10000] [''vx'' \<mapsto> - 1] 3600
                = Inr (t, d) \<and> 0 \<le> t \<and> t \<le> 3600)
   \<and> compute_closest_approach Map.empty Map.empty [''x'' \<mapsto> 10000] [''vx'' \<mapsto> - 1] 3600
        = Inr (3600, 6400)
   \<and> 3600 < linear_minimiser Map.empty Map.empty [''x'' \<mapsto> 10000] [''vx'' \<mapsto> - 1]"
proof -
  have h: "entries_within (10 ^ 50) Map.empty [''x'', ''y'', ''z'']"
          "entries_within (10 ^ 50) [''x'' \<mapsto> 10000] [''x'', ''y'', ''z'']"
          "entries_within (10 ^ 50) Map.empty [''vx'', ''vy'', ''vz'']"
          "entries_within (10 ^ 50) [''vx'' \<mapsto> - 1] [''vx'', ''vy'', ''vz'']"
    by (simp_all add: entries_within_def)
  have w: "(0::int) \<le> 3600" "of_int (3600::int) \<le> (10::real) ^ 50" by simp_all
  have m: "linear_minimiser Map.empty Map.empty [''x'' \<mapsto> 10000] [''vx'' \<mapsto> - 1] = 10000"
          "rel_speed_sq Map.empty [''vx'' \<mapsto> - 1] = 1"
    by (simp_all add: linear_minimiser_def rel_speed_sq_def)
  obtain t d where
    r: "compute_closest_approach Map.empty Map.empty [''x'' \<mapsto> 10000] [''vx'' \<mapsto> - 1] 3600
          = Inr (t, d)"
    and t: "0 \<le> t" "t \<le> 3600"
    and d: "d = separation_at Map.empty Map.empty [''x'' \<mapsto> 10000] [''vx'' \<mapsto> - 1] t"
    and c: "t = 3600"
    using compute_closest_approach_clamped [OF w h(1) h(2) h(3) h(4)]
    by (auto simp add: m)
  have "d = 6400" unfolding d c by (simp add: separation_at_def)
  thus ?thesis using r t c h by (simp add: m)
qed

lemma candidate_debris_filter:
  "candidate_debris sc ds = filter (\<lambda>d. cell_distance sc (cell (xyz_of d)) \<le> 1) ds"
  by (induction ds) simp_all

lemma xyz_diagonal_sat: "xyz_of diagonal_sat = [''x'' \<mapsto> 49, ''y'' \<mapsto> 49, ''z'' \<mapsto> 0]"
  by (simp add: xyz_of_def diagonal_sat_def)

lemma xyz_diagonal_deb: "xyz_of diagonal_deb = [''x'' \<mapsto> 51, ''y'' \<mapsto> 51, ''z'' \<mapsto> 0]"
  by (simp add: xyz_of_def diagonal_deb_def)

lemma cell_diagonal_sat: "cell (xyz_of diagonal_sat) = (0, 0, 0)"
  by (simp add: xyz_diagonal_sat cell_def cell_size_def)

lemma cell_diagonal_deb: "cell (xyz_of diagonal_deb) = (1, 1, 0)"
proof -
  have "\<lfloor>51 / 50 :: real\<rfloor> = 1" by (simp add: floor_eq_iff)
  thus ?thesis by (simp add: xyz_diagonal_deb cell_def cell_size_def)
qed

lemma distance_diagonal:
  "compute_distance (xyz_of diagonal_sat) (xyz_of diagonal_deb) = Inr (sqrt 8)"
  by (simp add: xyz_diagonal_sat xyz_diagonal_deb compute_distance_def Let_def pow2_small)

lemma sqrt8: "sqrt 8 < 10"
  by (rule real_less_lsqrt) simp_all

text \<open>
  Claim C8. A position is mapped to its grid cell by flooring each coordinate divided by
  50; a debris object reaches the exact distance check exactly when the Manhattan distance
  between its cell and the satellite's cell is at most 1; and there is a satellite-debris
  pair closer than the collision threshold whose cells are at Manhattan distance 2 and
  which the batch check leaves out of its result.
\<close>

theorem batch_collision_check_prefilter:
  "cell p = (\<lfloor>dict_get p ''x'' 0 / 50\<rfloor>, \<lfloor>dict_get p ''y'' 0 / 50\<rfloor>, \<lfloor>dict_get p ''z'' 0 / 50\<rfloor>)
   \<and> set (candidate_debris (cell (xyz_of sat)) debs)
       = {d. d \<in> set debs \<and> cell_distance (cell (xyz_of sat)) (cell (xyz_of d)) \<le> 1}
   \<and> batch_collision_check sat debs thr
       = check_candidates sat (xyz_of sat)
           (case thr of None \<Rightarrow> COLLISION_THRESHOLD_KM | Some t \<Rightarrow> t)
           (filter (\<lambda>d. cell_distance (cell (xyz_of sat)) (cell (xyz_of d)) \<le> 1) debs)
   \<and> (\<exists>s d dist. compute_distance (xyz_of s) (xyz_of d) = Inr dist
          \<and> dist < COLLISION_THRESHOLD_KM
          \<and> cell_distance (cell (xyz_of s)) (cell (xyz_of d)) = 2
          \<and> batch_collision_check s [d] None = Inr []
          \<and> batch_collision_check s [d] (Some COLLISION_THRESHOLD_KM) = Inr [])"
proof -
  have ex: "compute_distance (xyz_of diagonal_sat) (xyz_of diagonal_deb) = Inr (sqrt 8)
          \<and> sqrt 8 < COLLISION_THRESHOLD_KM
          \<and> cell_distance (cell (xyz_of diagonal_sat)) (cell (xyz_of diagonal_deb)) = 2
          \<and> batch_collision_check diagonal_sat [diagonal_deb] None = Inr []
          \<and> batch_collision_check diagonal_sat [diagonal_deb] (Some COLLISION_THRESHOLD_KM) = Inr []"
    using sqrt8
    by (simp add: distance_diagonal cell_diagonal_sat cell_diagonal_deb batch_collision_check_def
          Let_def COLLISION_THRESHOLD_KM_def)
  hence e: "\<exists>s d dist. compute_distance (xyz_of s) (xyz_of d) = Inr dist
          \<and> dist < COLLISION_THRESHOLD_KM
          \<and> cell_distance (cell (xyz_of s)) (cell (xyz_of d)) = 2
          \<and> batch_collision_check s [d] None = Inr []
          \<and> batch_collision_check s [d] (Some COLLISION_THRESHOLD_KM) = Inr []"
    by blast
  have a: "cell p = (\<lfloor>dict_get p ''x'' 0 / 50\<rfloor>, \<lfloor>dict_get p ''y'' 0 / 50\<rfloor>,
                     \<lfloor>dict_get p ''z'' 0 / 50\<rfloor>)"
    by (simp add: cell_def cell_size_def)
  have b: "set (candidate_debris (cell (xyz_of sat)) debs)
       = {d. d \<in> set debs \<and> cell_distance (cell (xyz_of sat)) (cell (xyz_of d)) \<le> 1}"
    by (simp only: candidate_debris_filter set_filter)
  have c: "batch_collision_check sat debs thr
       = check_candidates sat (xyz_of sat)
           (case thr of None \<Rightarrow> COLLISION_THRESHOLD_KM | Some t \<Rightarrow> t)
           (filter (\<lambda>d. cell_distance (cell (xyz_of sat)) (cell (xyz_of d)) \<le> 1) debs)"
    by (simp only: batch_collision_check_def Let_def candidate_debris_filter)
  from a b c e show ?thesis by (intro conjI)
qed


lemma classify_risk_advanced_kw_scan_call:
  "classify_risk_advanced_kw [(''distance_km'', a), (''relative_velocity_kmps'', b),
                              (''time_to_approach_sec'', c)] = Inl TypeError"
  by (simp add: classify_risk_advanced_kw_def call_kw_def)







end
